theory Spec2Isabelle
  imports Main
begin

section \<open>Transcript to genome coordinate mapping (map\_tx\_coordinates.py)\<close>

text \<open>
  A shallow embedding of the class \<open>CIGARString\<close>: its parser
  \<open>__parse_cigar_str\<close>, its length helper \<open>get_tx_length\<close> and the walk of
  \<open>map_coordinate\<close>. Python's unbounded integers are \<open>int\<close>; the genomic
  coordinate, a \<open>numpy.int64\<close> where the repository calls the walk, is an \<open>int\<close>
  with the wrap-around at 64 bits written out; a Python string
  is a \<open>string\<close> whose characters stand for the code points 0 to 255; a raised
  exception is the left summand of a sum type; the \<open>while\<close> loop, which need not end on
  every region list, is a partial function whose value \<open>None\<close> means that the loop
  never returns.
\<close>

subsection \<open>Exceptions and warnings\<close>

text \<open>
  \<open>ValueError_int lit\<close> is the \<open>ValueError\<close> raised by \<open>int(lit)\<close>;
  \<open>ValueError_bounds tx_pos tx_length cigar_str\<close> is the one raised by the bounds check of
  \<open>map_coordinate\<close>, holding the three values its message is formatted from;
  \<open>IndexError\<close> is a list read out of range. \<open>InsertionWarning tx_pos cigar_str\<close> is
  the call of \<open>warnings.warn\<close> in the insertion branch.
\<close>

datatype error = ValueError_int string | ValueError_bounds int int string | IndexError

datatype warning = InsertionWarning int string

subsection \<open>The library functions the parser calls\<close>

text \<open>\<open>str.isalpha\<close> on one code point below 256: the letters of ASCII and of Latin-1.\<close>

definition isalpha :: "char \<Rightarrow> bool" where
  "isalpha c =
     (let n = (of_char c :: nat)
      in (65 \<le> n \<and> n \<le> 90) \<or> (97 \<le> n \<and> n \<le> 122) \<or> n = 170 \<or> n = 181 \<or> n = 186
         \<or> (192 \<le> n \<and> n \<le> 214) \<or> (216 \<le> n \<and> n \<le> 246) \<or> (248 \<le> n \<and> n \<le> 255))"

text \<open>
  \<open>re.split('[MDISH=X]', s)\<close>: every occurrence of one of the seven symbols ends a piece,
  and the rest of the string after the last occurrence is the last piece, so the result has
  one piece more than there are occurrences.
\<close>

definition is_separator :: "char \<Rightarrow> bool" where
  "is_separator c = (c \<in> set ''MDISH=X'')"

fun re_split_from :: "string \<Rightarrow> string \<Rightarrow> string list" where
  "re_split_from piece [] = [piece]"
| "re_split_from piece (c # cs) =
     (if is_separator c then piece # re_split_from [] cs
      else re_split_from (piece @ [c]) cs)"

definition re_split :: "string \<Rightarrow> string list" where
  "re_split s = re_split_from [] s"

text \<open>
  \<open>int(x)\<close> on a string, base 10: white space around the literal is dropped (code points
  9 to 13, 32, 133 and 160), then an optional sign, then decimal digits, where one underscore
  may stand between two digits. Anything else raises \<open>ValueError\<close>, here \<open>None\<close>.
  The limit that recent interpreters put on the number of digits of a literal is left out.
\<close>

definition is_int_space :: "char \<Rightarrow> bool" where
  "is_int_space c =
     (let n = (of_char c :: nat) in (9 \<le> n \<and> n \<le> 13) \<or> n = 32 \<or> n = 133 \<or> n = 160)"

definition is_digit :: "char \<Rightarrow> bool" where
  "is_digit c = (let n = (of_char c :: nat) in 48 \<le> n \<and> n \<le> 57)"

definition digit_val :: "char \<Rightarrow> int" where
  "digit_val c = int (of_char c) - 48"

fun int_digits :: "int \<Rightarrow> string \<Rightarrow> int option" where
  "int_digits acc [] = Some acc"
| "int_digits acc [c] = (if is_digit c then Some (10 * acc + digit_val c) else None)"
| "int_digits acc (c # d # ds) =
     (if is_digit c then int_digits (10 * acc + digit_val c) (d # ds)
      else if c = CHR ''_'' \<and> is_digit d then int_digits (10 * acc + digit_val d) ds
      else None)"

definition int_unsigned :: "string \<Rightarrow> int option" where
  "int_unsigned s =
     (case s of
        [] \<Rightarrow> None
      | d # ds \<Rightarrow> if is_digit d then int_digits (digit_val d) ds else None)"

definition py_int :: "string \<Rightarrow> int option" where
  "py_int s =
     (case rev (dropWhile is_int_space (rev (dropWhile is_int_space s))) of
        [] \<Rightarrow> None
      | c # cs \<Rightarrow>
          if c = CHR ''-'' then map_option uminus (int_unsigned cs)
          else if c = CHR ''+'' then int_unsigned cs
          else int_unsigned (c # cs))"

subsection \<open>The class CIGARString and its parser\<close>

type_synonym region = "int \<times> char"

record CIGARString =
  cigar_str :: string
  cigar :: "region list"

text \<open>
  The list comprehension \<open>[int(i) for i in int_list]\<close>: the first piece that is no integer
  literal raises, and the comprehension is evaluated in full before \<open>zip\<close> is called.
\<close>

fun int_all :: "string list \<Rightarrow> error + int list" where
  "int_all [] = Inr []"
| "int_all (i # is) =
     (case py_int i of
        None \<Rightarrow> Inl (ValueError_int i)
      | Some n \<Rightarrow> (case int_all is of Inl e \<Rightarrow> Inl e | Inr ns \<Rightarrow> Inr (n # ns)))"

text \<open>
  \<open>__parse_cigar_str\<close>. \<open>int_list.pop()\<close> drops the last piece whatever it holds
  (\<open>re.split\<close> never returns the empty list, so \<open>pop\<close> cannot raise), and \<open>zip\<close>
  stops at the end of the shorter of its two arguments.
\<close>

definition parse_cigar_str :: "string \<Rightarrow> error + region list" where
  "parse_cigar_str s =
     (let chars_list = filter isalpha s;
          int_list = butlast (re_split s)
      in case int_all int_list of
           Inl e \<Rightarrow> Inl e
         | Inr ns \<Rightarrow> Inr (zip ns chars_list))"

text \<open>The constructor \<open>__init__\<close>.\<close>

definition CIGARString_init :: "string \<Rightarrow> error + CIGARString" where
  "CIGARString_init s =
     (case parse_cigar_str s of
        Inl e \<Rightarrow> Inl e
      | Inr rs \<Rightarrow> Inr \<lparr>cigar_str = s, cigar = rs\<rparr>)"

subsection \<open>Transcript length\<close>

text \<open>\<open>get_tx_length\<close>: the lengths of the regions whose symbol is in \<open>['M', 'I']\<close>, summed.\<close>

definition get_tx_length :: "CIGARString \<Rightarrow> int" where
  "get_tx_length c =
     (let region_lengths =
            map fst (filter (\<lambda>region. snd region \<in> set [CHR ''M'', CHR ''I'']) (cigar c))
      in sum_list region_lengths)"

subsection \<open>The walk of map\_coordinate\<close>

text \<open>
  The only caller of \<open>map_coordinate\<close>, \<open>get_coordinate_mapping\<close> (lines 153 to 159),
  passes as \<open>mapping_start_pos\<close> the value that \<open>pandas\<close> read from the transcripts
  file, a \<open>numpy.int64\<close>. So \<open>curr_pos\<close> is a \<open>numpy.int64\<close> as well, and each
  \<open>curr_pos += ...\<close> is a signed 64 bit addition that wraps around: \<open>int64\<close> brings
  the exact sum back into the range from \<open>- 2 ^ 63\<close> to \<open>2 ^ 63 - 1\<close>. The region
  lengths, \<open>tx_pos\<close> and \<open>tx_ix\<close> are Python integers and do not wrap. A length that
  is itself outside the 64 bit range, where what the addition does depends on the version
  of the library, is reduced in the same way.
\<close>

definition int64 :: "int \<Rightarrow> int" where
  "int64 x = (x + 2 ^ 63) mod 2 ^ 64 - 2 ^ 63"

text \<open>The local variables of \<open>map_coordinate\<close>, and the warnings emitted so far.\<close>

record walk_state =
  curr_pos :: int
  curr_region_length :: int
  curr_region_type :: char
  region_ix :: nat
  within_region_ix :: int
  tx_ix :: int
  reached_end_of_region :: bool
  warned :: "warning list"

text \<open>The \<open>if\<close>/\<open>elif\<close> chain on the type of the current region (lines 70 to 88).\<close>

definition advance :: "CIGARString \<Rightarrow> int \<Rightarrow> walk_state \<Rightarrow> walk_state" where
  "advance c tx_pos st =
     (if curr_region_type st = CHR ''M'' then
        (let st1 = st\<lparr>curr_pos := int64 (curr_pos st + 1),
                       within_region_ix := within_region_ix st + 1\<rparr>
         in if within_region_ix st1 = curr_region_length st1 - 1
            then st1\<lparr>reached_end_of_region := True\<rparr> else st1)
      else if curr_region_type st = CHR ''D'' then
        st\<lparr>curr_pos := int64 (curr_pos st + (curr_region_length st + 1)),
           reached_end_of_region := True\<rparr>
      else if curr_region_type st = CHR ''I'' then
        (let st1 = st\<lparr>tx_ix := tx_ix st + curr_region_length st,
                       curr_pos := int64 (curr_pos st + 1),
                       reached_end_of_region := True\<rparr>
         in if tx_pos \<le> tx_ix st1
            then st1\<lparr>warned := warned st1 @ [InsertionWarning tx_pos (cigar_str c)]\<rparr>
            else st1)
      else st)"

text \<open>
  The move to the next region (lines 91 to 97). Past the last region only \<open>region_ix\<close>
  changes: the current region and the flag stay as they are.
\<close>

definition next_region :: "CIGARString \<Rightarrow> walk_state \<Rightarrow> walk_state" where
  "next_region c st =
     (if reached_end_of_region st then
        (let st1 = st\<lparr>region_ix := region_ix st + 1\<rparr>
         in if region_ix st1 < length (cigar c)
            then st1\<lparr>curr_region_length := fst (cigar c ! region_ix st1),
                     curr_region_type := snd (cigar c ! region_ix st1),
                     within_region_ix := 0,
                     reached_end_of_region := False\<rparr>
            else st1)
      else st)"

text \<open>One iteration of the loop; its last statement is \<open>tx_ix += 1\<close>.\<close>

definition loop_body :: "CIGARString \<Rightarrow> int \<Rightarrow> walk_state \<Rightarrow> walk_state" where
  "loop_body c tx_pos st =
     (let st1 = next_region c (advance c tx_pos st)
      in st1\<lparr>tx_ix := tx_ix st1 + 1\<rparr>)"

text \<open>The loop \<open>while tx_ix < tx_pos\<close>.\<close>

partial_function (option) walk :: "CIGARString \<Rightarrow> int \<Rightarrow> walk_state \<Rightarrow> walk_state option" where
  "walk c tx_pos st =
     (if tx_ix st < tx_pos then walk c tx_pos (loop_body c tx_pos st) else Some st)"

declare walk.simps [code]

text \<open>The state before the loop (lines 56 to 64), read from region 0.\<close>

definition initial_state :: "region \<Rightarrow> int \<Rightarrow> walk_state" where
  "initial_state r0 mapping_start_pos =
     \<lparr>curr_pos = mapping_start_pos,
      curr_region_length = fst r0,
      curr_region_type = snd r0,
      region_ix = 0,
      within_region_ix = 0,
      tx_ix = 0,
      reached_end_of_region = False,
      warned = []\<rparr>"

text \<open>
  \<open>map_coordinate\<close>: the bounds check, the read of region 0 (an \<open>IndexError\<close> on the
  empty list), the loop. The result is the returned coordinate with the warnings emitted,
  or the exception raised; \<open>None\<close> when the loop never ends.
\<close>

definition map_coordinate ::
    "CIGARString \<Rightarrow> int \<Rightarrow> int \<Rightarrow> (error + int \<times> warning list) option" where
  "map_coordinate c tx_pos mapping_start_pos =
     (if tx_pos < 0 \<or> tx_pos \<ge> get_tx_length c
      then Some (Inl (ValueError_bounds tx_pos (get_tx_length c) (cigar_str c)))
      else case cigar c of
             [] \<Rightarrow> Some (Inl IndexError)
           | r0 # _ \<Rightarrow>
               (case walk c tx_pos (initial_state r0 mapping_start_pos) of
                  None \<Rightarrow> None
                | Some st \<Rightarrow> Some (Inr (curr_pos st, warned st))))"

text \<open>
  Construction followed by one query, \<open>CIGARString(s).map_coordinate(tx_pos, start)\<close>, as
  \<open>get_coordinate_mapping\<close> does (lines 158 and 159).
\<close>

definition cigar_map_coordinate ::
    "string \<Rightarrow> int \<Rightarrow> int \<Rightarrow> (error + int \<times> warning list) option" where
  "cigar_map_coordinate s tx_pos mapping_start_pos =
     (case CIGARString_init s of
        Inl e \<Rightarrow> Some (Inl e)
      | Inr c \<Rightarrow> map_coordinate c tx_pos mapping_start_pos)"

subsection \<open>Facts about the parser and the walk\<close>

lemmas parser_defs =
  parse_cigar_str_def re_split_def is_separator_def isalpha_def py_int_def int_unsigned_def
  is_int_space_def is_digit_def digit_val_def

lemmas walk_defs =
  cigar_map_coordinate_def CIGARString_init_def map_coordinate_def get_tx_length_def
  initial_state_def loop_body_def advance_def next_region_def int64_def

lemma int_all_Inl: "(\<exists>e. int_all ps = Inl e) \<longleftrightarrow> (\<exists>i\<in>set ps. py_int i = None)"
  by (induction ps) (auto split: option.splits sum.splits)

lemma int_all_length: "int_all ps = Inr ns \<Longrightarrow> length ns = length ps"
  by (induction ps arbitrary: ns) (auto split: option.splits sum.splits)

lemma int_all_values: "int_all ps = Inr ns \<Longrightarrow> map Some ns = map py_int ps"
  by (induction ps arbitrary: ns) (auto split: option.splits sum.splits)


lemma int64_id: "- (2 ^ 63) \<le> x \<Longrightarrow> x < 2 ^ 63 \<Longrightarrow> int64 x = x"
proof -
  assume "- (2 ^ 63) \<le> x" and "x < 2 ^ 63"
  then have "0 \<le> x + 2 ^ 63" and "x + 2 ^ 63 < (2 ^ 64 :: int)" by simp_all
  then have "(x + 2 ^ 63) mod (2 ^ 64 :: int) = x + 2 ^ 63" by (rule mod_pos_pos_trivial)
  then show ?thesis by (simp add: int64_def)
qed

lemma sum_filter_if:
  "sum_list (map fst (filter P rs)) = (\<Sum>r\<leftarrow>rs. if P r then fst r else (0::int))"
  by (induction rs) simp_all

lemma get_tx_length_Nil: "cigar c = [] \<Longrightarrow> get_tx_length c = 0"
  by (simp add: get_tx_length_def)

lemma in_bounds_nonempty: "p < get_tx_length c \<Longrightarrow> 0 \<le> p \<Longrightarrow> cigar c \<noteq> []"
  using get_tx_length_Nil [of c] by auto

lemma advance_region [simp]:
  "curr_region_length (advance c p st) = curr_region_length st"
  "curr_region_type (advance c p st) = curr_region_type st"
  by (simp_all add: advance_def Let_def)

lemma advance_tx_ix:
  "tx_ix (advance c p st) =
     (if curr_region_type st = CHR ''I'' then tx_ix st + curr_region_length st else tx_ix st)"
  by (simp add: advance_def Let_def)

lemma next_region_tx_ix [simp]: "tx_ix (next_region c st) = tx_ix st"
  by (simp add: next_region_def Let_def)

lemma next_region_curr_pos [simp]: "curr_pos (next_region c st) = curr_pos st"
  by (simp add: next_region_def Let_def)

text \<open>The current region is always one of the regions of the list.\<close>

lemma next_region_mem:
  "(curr_region_length st, curr_region_type st) \<in> set (cigar c) \<Longrightarrow>
   (curr_region_length (next_region c st), curr_region_type (next_region c st)) \<in> set (cigar c)"
  by (simp add: next_region_def Let_def)

lemma loop_body_mem:
  "(curr_region_length st, curr_region_type st) \<in> set (cigar c) \<Longrightarrow>
   (curr_region_length (loop_body c p st), curr_region_type (loop_body c p st)) \<in> set (cigar c)"
  using next_region_mem [of "advance c p st" c] by (simp add: loop_body_def Let_def)

lemma loop_body_tx_ix:
  "tx_ix (loop_body c p st) =
     (if curr_region_type st = CHR ''I'' then tx_ix st + curr_region_length st + 1
      else tx_ix st + 1)"
  by (simp add: loop_body_def Let_def advance_tx_ix)

lemma loop_body_curr_pos:
  "curr_pos (loop_body c p st) =
     (if curr_region_type st = CHR ''M'' then int64 (curr_pos st + 1)
      else if curr_region_type st = CHR ''D''
        then int64 (curr_pos st + (curr_region_length st + 1))
      else if curr_region_type st = CHR ''I'' then int64 (curr_pos st + 1)
      else curr_pos st)"
  by (simp add: loop_body_def Let_def advance_def)



lemma initial_state_mem:
  "cigar c = r0 # rs \<Longrightarrow>
   (curr_region_length (initial_state r0 start), curr_region_type (initial_state r0 start))
     \<in> set (cigar c)"
  by (simp add: initial_state_def)

lemma initial_state_tx_ix [simp]: "tx_ix (initial_state r0 start) = 0"
  by (simp add: initial_state_def)

lemma map_coordinate_in_bounds:
  "0 \<le> p \<Longrightarrow> p < get_tx_length c \<Longrightarrow> cigar c = r0 # rs \<Longrightarrow>
   map_coordinate c p start =
     (case walk c p (initial_state r0 start) of
        None \<Rightarrow> None
      | Some st \<Rightarrow> Some (Inr (curr_pos st, warned st)))"
  by (simp add: map_coordinate_def)

lemma init_cigar_str: "CIGARString_init s = Inr c \<Longrightarrow> cigar_str c = s"
  by (auto simp: CIGARString_init_def split: sum.splits)

text \<open>
  With lengths that are not negative every iteration moves \<open>tx_ix\<close> up, so the loop
  returns: induction on the distance from \<open>tx_ix\<close> to the queried position.
\<close>

lemma walk_returns:
  assumes nonneg: "\<forall>r\<in>set (cigar c). 0 \<le> fst r"
    and inv: "(curr_region_length st, curr_region_type st) \<in> set (cigar c)"
  shows "\<exists>st'. walk c p st = Some st'"
  using inv
proof (induction "nat (p - tx_ix st)" arbitrary: st rule: less_induct)
  case less
  show ?case
  proof (cases "tx_ix st < p")
    case False
    then show ?thesis by (simp add: walk.simps)
  next
    case True
    let ?st = "loop_body c p st"
    from less.prems nonneg have len: "0 \<le> curr_region_length st" by fastforce
    then have "tx_ix st < tx_ix ?st" by (simp add: loop_body_tx_ix)
    with True have "nat (p - tx_ix ?st) < nat (p - tx_ix st)" by simp
    moreover have "(curr_region_length ?st, curr_region_type ?st) \<in> set (cigar c)"
      using less.prems by (rule loop_body_mem)
    ultimately obtain st' where "walk c p ?st = Some st'"
      using less.hyps by blast
    with True show ?thesis by (subst walk.simps) simp
  qed
qed


text \<open>
  On a last region that is an insertion of length - 1, the insertion branch takes back what
  the final increment adds: \<open>tx_ix\<close> stays at 3, and a walk to position 4 returns nothing.
\<close>

lemma loop_body_stays:
  assumes "length (cigar c) = 4" and "curr_region_type st = CHR ''I''"
    and "curr_region_length st = - 1" and "tx_ix st = 3" and "3 \<le> region_ix st"
  shows "curr_region_type (loop_body c 4 st) = CHR ''I''
         \<and> curr_region_length (loop_body c 4 st) = - 1
         \<and> tx_ix (loop_body c 4 st) = 3 \<and> 3 \<le> region_ix (loop_body c 4 st)"
  using assms by (simp add: loop_body_def advance_def next_region_def Let_def)

lemma walk_stays_forever:
  assumes "walk c p st = Some y"
  shows "\<not> (length (cigar c) = 4 \<and> p = 4 \<and> curr_region_type st = CHR ''I''
            \<and> curr_region_length st = - 1 \<and> tx_ix st = 3 \<and> 3 \<le> region_ix st)"
proof (rule walk.raw_induct
    [where P = "\<lambda>c p st y. \<not> (length (cigar c) = 4 \<and> p = 4 \<and> curr_region_type st = CHR ''I''
            \<and> curr_region_length st = - 1 \<and> tx_ix st = 3 \<and> 3 \<le> region_ix st)", OF _ assms])
  fix w c p st y
  assume IH: "\<And>c p st y. w c p st = Some y \<Longrightarrow>
      \<not> (length (cigar c) = 4 \<and> p = 4 \<and> curr_region_type st = CHR ''I''
            \<and> curr_region_length st = - 1 \<and> tx_ix st = 3 \<and> 3 \<le> region_ix st)"
    and step: "(if tx_ix st < p then w c p (loop_body c p st) else Some st) = Some y"
  show "\<not> (length (cigar c) = 4 \<and> p = 4 \<and> curr_region_type st = CHR ''I''
            \<and> curr_region_length st = - 1 \<and> tx_ix st = 3 \<and> 3 \<le> region_ix st)"
  proof
    assume s: "length (cigar c) = 4 \<and> p = 4 \<and> curr_region_type st = CHR ''I''
            \<and> curr_region_length st = - 1 \<and> tx_ix st = 3 \<and> 3 \<le> region_ix st"
    with step have "w c 4 (loop_body c 4 st) = Some y" by simp
    from IH [OF this] loop_body_stays [of c st] s show False by simp
  qed
qed

subsection \<open>The worked examples of the mapper\<close>

text \<open>
  C1, as stated: for "2M2I2M" with mapping start position 10, transcript position 2 (inside
  the insertion) would map to 13. It does not: the two match bases lie on 10 and 11, and the
  coordinate to the right of the insertion is 12.
\<close>

theorem insertion_query_not_13:
  "\<not> (\<exists>w. cigar_map_coordinate ''2M2I2M'' 2 10 = Some (Inr (13, w)))"
  by (simp add: walk_defs parser_defs walk.simps)

text \<open>
  C1, amended. For the encoding "2M2I2M" with mapping start position 10, \<open>map_coordinate\<close>
  emits the insertion warning and returns 12 for the transcript positions 2 and 3, and
  without a warning returns 10 for position 0, 11 for position 1, 12 for position 4 and 13
  for position 5.
\<close>

theorem cigar_2M2I2M_values:
  "cigar_map_coordinate ''2M2I2M'' 0 10 = Some (Inr (10, []))
   \<and> cigar_map_coordinate ''2M2I2M'' 1 10 = Some (Inr (11, []))
   \<and> cigar_map_coordinate ''2M2I2M'' 2 10 = Some (Inr (12, [InsertionWarning 2 ''2M2I2M'']))
   \<and> cigar_map_coordinate ''2M2I2M'' 3 10 = Some (Inr (12, [InsertionWarning 3 ''2M2I2M'']))
   \<and> cigar_map_coordinate ''2M2I2M'' 4 10 = Some (Inr (12, []))
   \<and> cigar_map_coordinate ''2M2I2M'' 5 10 = Some (Inr (13, []))"
  by (simp add: walk_defs parser_defs walk.simps)

text \<open>
  C2, as stated: for "5D10M" with mapping start position 0, transcript position 0 would map
  to 6. It does not: for position 0 the loop body never runs.
\<close>

theorem deletion_prefix_not_6:
  "\<not> (\<exists>w. cigar_map_coordinate ''5D10M'' 0 0 = Some (Inr (6, w)))"
  by (simp add: walk_defs parser_defs walk.simps)

text \<open>
  C2, amended. For the encoding "5D10M" with mapping start position 0, \<open>map_coordinate\<close>
  returns the mapping start position 0 for transcript position 0; the deletion is crossed
  in one step of length + 1 by the first iteration of the loop, so that transcript
  position 1 maps to 6.
\<close>

theorem cigar_5D10M_values:
  "cigar_map_coordinate ''5D10M'' 0 0 = Some (Inr (0, []))
   \<and> cigar_map_coordinate ''5D10M'' 1 0 = Some (Inr (6, []))"
  by (simp add: walk_defs parser_defs walk.simps)

subsection \<open>The parser\<close>

text \<open>
  C3, as stated: parsing "8M7" would fail. It does not: the last piece of the split, here
  "7", is dropped unread.
\<close>

theorem parse_8M7_no_failure:
  "\<not> (\<exists>e. parse_cigar_str ''8M7'' = Inl e)"
  by (simp add: parser_defs)

text \<open>
  C3, amended. The parser does not compare the lengths of the two scans. For an encoding
  without the symbol =, it drops the last piece of the split, converts the pieces before it
  to integers and pairs them, in their order, with the alphabetic characters of the string,
  in their order, stopping at the end of the shorter sequence. "8M7" parses to the single
  region (8, M), the empty string parses to the empty region sequence, and "8MA" (one
  length, two letters) parses to (8, M). Parsing fails exactly when one of the pieces before
  the last is not an integer literal, as "8A7" is in "8A7M".
\<close>

theorem parse_truncates:
  "parse_cigar_str ''8M7'' = Inr [(8, CHR ''M'')]
   \<and> parse_cigar_str [] = Inr []
   \<and> parse_cigar_str ''8MA'' = Inr [(8, CHR ''M'')]
   \<and> parse_cigar_str ''8A7M'' = Inl (ValueError_int ''8A7'')
   \<and> (CHR ''='' \<notin> set s \<longrightarrow>
        ((\<exists>e. parse_cigar_str s = Inl e) \<longleftrightarrow> (\<exists>i\<in>set (butlast (re_split s)). py_int i = None))
        \<and> (\<forall>rs. parse_cigar_str s = Inr rs \<longrightarrow>
              length rs = min (length (re_split s) - 1) (length (filter isalpha s))
              \<and> map (\<lambda>r. Some (fst r)) rs = take (length rs) (map py_int (butlast (re_split s)))
              \<and> map snd rs = take (length rs) (filter isalpha s)))"
proof (intro conjI allI impI)
  show "parse_cigar_str ''8M7'' = Inr [(8, CHR ''M'')]" by (simp add: parser_defs)
  show "parse_cigar_str [] = Inr []" by (simp add: parser_defs)
  show "parse_cigar_str ''8MA'' = Inr [(8, CHR ''M'')]" by (simp add: parser_defs)
  show "parse_cigar_str ''8A7M'' = Inl (ValueError_int ''8A7'')" by (simp add: parser_defs)
  show "(\<exists>e. parse_cigar_str s = Inl e) \<longleftrightarrow> (\<exists>i\<in>set (butlast (re_split s)). py_int i = None)"
    using int_all_Inl [of "butlast (re_split s)"]
    by (auto simp: parse_cigar_str_def split: sum.splits)
next
  fix rs assume "parse_cigar_str s = Inr rs"
  then obtain ns where ns: "int_all (butlast (re_split s)) = Inr ns"
    and rs: "rs = zip ns (filter isalpha s)"
    by (auto simp: parse_cigar_str_def split: sum.splits)
  from ns have len: "length ns = length (re_split s) - 1"
    by (simp add: int_all_length)
  show "length rs = min (length (re_split s) - 1) (length (filter isalpha s))"
    using rs len by simp
  have fst: "map fst rs = take (length rs) ns"
    using rs by (simp add: map_fst_zip_take)
  have "map (\<lambda>r. Some (fst r)) rs = map Some (map fst rs)"
    by simp
  also have "\<dots> = take (length rs) (map Some ns)"
    by (simp only: fst take_map)
  finally show "map (\<lambda>r. Some (fst r)) rs = take (length rs) (map py_int (butlast (re_split s)))"
    using int_all_values [OF ns] by simp
  show "map snd rs = take (length rs) (filter isalpha s)"
    using rs by (simp add: map_snd_zip_take)
qed

text \<open>
  The encoding "8MA" has one length and two letters: the scans differ in length, and the
  parser returns one region.
\<close>

theorem parse_truncates_witness:
  "CHR ''='' \<notin> set ''8MA''
   \<and> parse_cigar_str ''8MA'' = Inr [(8, CHR ''M'')]
   \<and> length [(8 :: int, CHR ''M'')] =
       min (length (re_split ''8MA'') - 1) (length (filter isalpha ''8MA''))
   \<and> map (\<lambda>r. Some (fst r)) [(8 :: int, CHR ''M'')] =
       take (length [(8 :: int, CHR ''M'')]) (map py_int (butlast (re_split ''8MA'')))
   \<and> map snd [(8 :: int, CHR ''M'')] = take (length [(8 :: int, CHR ''M'')]) (filter isalpha ''8MA'')
   \<and> length (re_split ''8MA'') - 1 \<noteq> length (filter isalpha ''8MA'')"
proof -
  have no_eq: "CHR ''='' \<notin> set ''8MA''" by simp
  have parsed: "parse_cigar_str ''8MA'' = Inr [(8, CHR ''M'')]" by (simp add: parser_defs)
  have differ: "length (re_split ''8MA'') - 1 \<noteq> length (filter isalpha ''8MA'')"
    by (simp add: parser_defs)
  from parse_truncates [of "''8MA''"] no_eq parsed
  have "length [(8 :: int, CHR ''M'')] =
          min (length (re_split ''8MA'') - 1) (length (filter isalpha ''8MA''))
        \<and> map (\<lambda>r. Some (fst r)) [(8 :: int, CHR ''M'')] =
          take (length [(8 :: int, CHR ''M'')]) (map py_int (butlast (re_split ''8MA'')))
        \<and> map snd [(8 :: int, CHR ''M'')] =
          take (length [(8 :: int, CHR ''M'')]) (filter isalpha ''8MA'')"
    by blast
  with no_eq parsed differ show ?thesis by blast
qed

text \<open>
  C4. For the encoding "8M7D6M2I2M11D7M" with mapping start position 3, transcript
  position 4 maps to the genomic coordinate 7.
\<close>

theorem cigar_worked_example:
  "cigar_map_coordinate ''8M7D6M2I2M11D7M'' 4 3 = Some (Inr (7, []))"
  by (simp add: walk_defs parser_defs walk.simps)

subsection \<open>Transcript length\<close>

text \<open>
  C6. The transcript length is the sum of the lengths of exactly the regions whose symbol
  is M or I, every other region counting 0; for "8M7D6M2I2M11D7M" it is 25.
\<close>

theorem get_tx_length_sum:
  "get_tx_length c =
     (\<Sum>r\<leftarrow>cigar c. if snd r = CHR ''M'' \<or> snd r = CHR ''I'' then fst r else 0)
   \<and> map_sum id get_tx_length (CIGARString_init ''8M7D6M2I2M11D7M'') = Inr 25"
proof
  show "get_tx_length c =
     (\<Sum>r\<leftarrow>cigar c. if snd r = CHR ''M'' \<or> snd r = CHR ''I'' then fst r else 0)"
    by (simp add: get_tx_length_def sum_filter_if)
  show "map_sum id get_tx_length (CIGARString_init ''8M7D6M2I2M11D7M'') = Inr 25"
    by (simp add: CIGARString_init_def get_tx_length_def parser_defs)
qed

text \<open>
  C8. Parsing the well-formed encoding "8M7D6M2I" yields exactly the regions (8, M), (7, D),
  (6, M), (2, I) in this order: lengths and symbols are paired by position, left to right.
\<close>

theorem parse_8M7D6M2I:
  "parse_cigar_str ''8M7D6M2I'' =
     Inr [(8, CHR ''M''), (7, CHR ''D''), (6, CHR ''M''), (2, CHR ''I'')]"
  by (simp add: parser_defs)

subsection \<open>The bounds check\<close>

text \<open>
  C5. For every constructed \<open>CIGARString\<close>, \<open>map_coordinate\<close> raises exactly when the
  queried position is negative or at least the transcript length; the exception is then the
  \<open>ValueError\<close> of the bounds check, which holds the queried position, the transcript
  length and the string the object was built from. In particular this is so for position
  - 1 and for the transcript length itself; no position out of bounds yields a coordinate.
\<close>

theorem map_coordinate_out_of_bounds:
  assumes "CIGARString_init s = Inr c"
  shows "((\<exists>e. map_coordinate c p start = Some (Inl e)) \<longleftrightarrow> (p < 0 \<or> get_tx_length c \<le> p))
         \<and> (p < 0 \<or> get_tx_length c \<le> p \<longrightarrow>
              map_coordinate c p start = Some (Inl (ValueError_bounds p (get_tx_length c) s)))
         \<and> map_coordinate c (- 1) start = Some (Inl (ValueError_bounds (- 1) (get_tx_length c) s))
         \<and> map_coordinate c (get_tx_length c) start =
              Some (Inl (ValueError_bounds (get_tx_length c) (get_tx_length c) s))"
proof -
  from assms have s: "cigar_str c = s" by (rule init_cigar_str)
  have out: "map_coordinate c q start = Some (Inl (ValueError_bounds q (get_tx_length c) s))"
    if "q < 0 \<or> get_tx_length c \<le> q" for q
    using that s by (auto simp: map_coordinate_def)
  have inb: "\<not> (\<exists>e. map_coordinate c p start = Some (Inl e))"
    if "\<not> (p < 0 \<or> get_tx_length c \<le> p)"
  proof -
    from that have b: "0 \<le> p" "p < get_tx_length c" by simp_all
    then have "cigar c \<noteq> []" by (simp add: in_bounds_nonempty)
    then obtain r0 rs where "cigar c = r0 # rs" by (cases "cigar c") auto
    with b show ?thesis
      by (simp add: map_coordinate_in_bounds split: option.splits)
  qed
  have "(\<exists>e. map_coordinate c p start = Some (Inl e)) \<longleftrightarrow> (p < 0 \<or> get_tx_length c \<le> p)"
    using out [of p] inb by blast
  moreover have "map_coordinate c (- 1) start =
      Some (Inl (ValueError_bounds (- 1) (get_tx_length c) s))"
    by (rule out) simp
  moreover have "map_coordinate c (get_tx_length c) start =
      Some (Inl (ValueError_bounds (get_tx_length c) (get_tx_length c) s))"
    by (rule out) simp
  ultimately show ?thesis using out [of p] by blast
qed

text \<open>"2M2I2M" has transcript length 6: position 6 and position - 1 are refused.\<close>

theorem map_coordinate_out_of_bounds_witness:
  "CIGARString_init ''2M2I2M'' =
     Inr \<lparr>cigar_str = ''2M2I2M'', cigar = [(2, CHR ''M''), (2, CHR ''I''), (2, CHR ''M'')]\<rparr>
   \<and> map_coordinate
        \<lparr>cigar_str = ''2M2I2M'', cigar = [(2, CHR ''M''), (2, CHR ''I''), (2, CHR ''M'')]\<rparr> 6 10
       = Some (Inl (ValueError_bounds 6 6 ''2M2I2M''))
   \<and> map_coordinate
        \<lparr>cigar_str = ''2M2I2M'', cigar = [(2, CHR ''M''), (2, CHR ''I''), (2, CHR ''M'')]\<rparr> (- 1) 10
       = Some (Inl (ValueError_bounds (- 1) 6 ''2M2I2M''))"
proof -
  let ?c = "\<lparr>cigar_str = ''2M2I2M'', cigar = [(2, CHR ''M''), (2, CHR ''I''), (2, CHR ''M'')]\<rparr>"
  have init: "CIGARString_init ''2M2I2M'' = Inr ?c"
    by (simp add: CIGARString_init_def parser_defs)
  have len: "get_tx_length ?c = 6" by (simp add: get_tx_length_def)
  from map_coordinate_out_of_bounds [OF init, of 6 10] len init show ?thesis by simp
qed

text \<open>
  C10. When the bounds check passes (0 \<le> tx_pos < transcript length), the transcript
  length is at least 1, so the region list is not empty: the read of region 0 succeeds, no
  \<open>IndexError\<close> is raised, and the result is that of the loop started from region 0.
\<close>

theorem bounds_check_nonempty:
  assumes "0 \<le> p" and "p < get_tx_length c"
  shows "1 \<le> get_tx_length c \<and> cigar c \<noteq> []
         \<and> (\<exists>r0 rs. cigar c = r0 # rs
               \<and> map_coordinate c p start =
                   (case walk c p (initial_state r0 start) of
                      None \<Rightarrow> None
                    | Some st \<Rightarrow> Some (Inr (curr_pos st, warned st))))
         \<and> map_coordinate c p start \<noteq> Some (Inl IndexError)"
proof -
  from assms have ne: "cigar c \<noteq> []" by (simp add: in_bounds_nonempty)
  then obtain r0 rs where c: "cigar c = r0 # rs" by (cases "cigar c") auto
  have m: "map_coordinate c p start =
             (case walk c p (initial_state r0 start) of
                None \<Rightarrow> None
              | Some st \<Rightarrow> Some (Inr (curr_pos st, warned st)))"
    using assms c by (simp add: map_coordinate_def)
  then have "map_coordinate c p start \<noteq> Some (Inl IndexError)"
    by (simp split: option.splits)
  with assms ne c m show ?thesis by auto
qed

text \<open>The regions of "2M2I2M", queried at its last transcript position.\<close>

theorem bounds_check_nonempty_witness:
  "(0::int) \<le> 5
   \<and> 5 < get_tx_length
           \<lparr>cigar_str = ''2M2I2M'', cigar = [(2, CHR ''M''), (2, CHR ''I''), (2, CHR ''M'')]\<rparr>
   \<and> map_coordinate
        \<lparr>cigar_str = ''2M2I2M'', cigar = [(2, CHR ''M''), (2, CHR ''I''), (2, CHR ''M'')]\<rparr> 5 10
        \<noteq> Some (Inl IndexError)"
proof -
  let ?c = "\<lparr>cigar_str = ''2M2I2M'', cigar = [(2, CHR ''M''), (2, CHR ''I''), (2, CHR ''M'')]\<rparr>"
  have lo: "(0::int) \<le> 5" by simp
  have hi: "5 < get_tx_length ?c" by (simp add: get_tx_length_def)
  from bounds_check_nonempty [OF lo hi, of 10]
  have "map_coordinate ?c 5 10 \<noteq> Some (Inl IndexError)" by blast
  with lo hi show ?thesis by blast
qed

subsection \<open>Monotonicity and termination\<close>




text \<open>
  C9, as stated: for every parsed region sequence and every position in bounds the walk
  would end, \<open>tx_ix\<close> moving up in every iteration. The parser reads "-1I" as an insertion
  of length - 1; on it the insertion branch lowers \<open>tx_ix\<close> by one before the final
  increment. "2M2M2M-1I" has transcript length 5, and the walk to position 4 never returns.
\<close>

theorem negative_insertion_never_returns:
  "map_sum id get_tx_length (CIGARString_init ''2M2M2M-1I'') = Inr 5
   \<and> cigar_map_coordinate ''2M2M2M-1I'' 4 0 = None"
proof -
  let ?c = "\<lparr>cigar_str = ''2M2M2M-1I'',
             cigar = [(2, CHR ''M''), (2, CHR ''M''), (2, CHR ''M''), (- 1, CHR ''I'')]\<rparr>"
  let ?s3 = "\<lparr>curr_pos = 3, curr_region_length = - 1, curr_region_type = CHR ''I'',
              region_ix = 3, within_region_ix = 0, tx_ix = 3,
              reached_end_of_region = False, warned = []\<rparr>"
  have init: "CIGARString_init ''2M2M2M-1I'' = Inr ?c"
    by (simp add: CIGARString_init_def parser_defs)
  have "walk ?c 4 (initial_state (2, CHR ''M'') 0) = walk ?c 4 ?s3"
    by (subst walk.simps, subst walk.simps, subst walk.simps)
       (simp add: initial_state_def loop_body_def advance_def next_region_def int64_id
          numeral_3_eq_3)
  moreover have "walk ?c 4 ?s3 = None"
  proof (cases "walk ?c 4 ?s3")
    case (Some y)
    from walk_stays_forever [OF this] show ?thesis by simp
  qed simp
  ultimately have "map_coordinate ?c 4 0 = None"
    by (simp add: map_coordinate_def get_tx_length_def)
  with init show ?thesis by (simp add: cigar_map_coordinate_def get_tx_length_def)
qed

text \<open>
  C9, amended. For every region sequence without negative lengths (regions with symbols
  other than M, D and I included) and every transcript position in bounds, the walk of
  \<open>map_coordinate\<close> ends and a coordinate is returned: in every iteration, whose current
  region is always a region of the sequence, \<open>tx_ix\<close> moves up, and on a region whose
  symbol no branch handles the iteration adds exactly one to \<open>tx_ix\<close> and leaves the
  coordinate as it is.
\<close>

theorem map_coordinate_terminates:
  assumes "\<forall>r\<in>set (cigar c). 0 \<le> fst r" and "0 \<le> p" and "p < get_tx_length c"
  shows "(\<exists>g w. map_coordinate c p start = Some (Inr (g, w)))
         \<and> (\<forall>st. (curr_region_length st, curr_region_type st) \<in> set (cigar c) \<longrightarrow>
               tx_ix st < tx_ix (loop_body c p st))
         \<and> (\<forall>st. curr_region_type st \<notin> set ''MDI'' \<longrightarrow>
               tx_ix (loop_body c p st) = tx_ix st + 1
               \<and> curr_pos (loop_body c p st) = curr_pos st)"
proof (intro conjI allI impI)
  from assms(2,3) have "cigar c \<noteq> []" by (simp add: in_bounds_nonempty)
  then obtain r0 rs where c: "cigar c = r0 # rs" by (cases "cigar c") auto
  from walk_returns [OF assms(1) initial_state_mem [OF c]]
  obtain st' where "walk c p (initial_state r0 start) = Some st'" by blast
  with assms(2,3) c show "\<exists>g w. map_coordinate c p start = Some (Inr (g, w))"
    by (simp add: map_coordinate_in_bounds)
next
  fix st :: walk_state
  assume "(curr_region_length st, curr_region_type st) \<in> set (cigar c)"
  with assms(1) have "0 \<le> curr_region_length st" by fastforce
  then show "tx_ix st < tx_ix (loop_body c p st)" by (simp add: loop_body_tx_ix)
next
  fix st :: walk_state
  assume "curr_region_type st \<notin> set ''MDI''"
  then show "tx_ix (loop_body c p st) = tx_ix st + 1"
    and "curr_pos (loop_body c p st) = curr_pos st"
    by (simp_all add: loop_body_tx_ix loop_body_curr_pos)
qed

text \<open>The regions of "2S3M": the walk to position 2 stays on the soft clip and returns.\<close>

theorem map_coordinate_terminates_witness:
  "list_all (\<lambda>r. 0 \<le> fst r)
     (cigar \<lparr>cigar_str = ''2S3M'', cigar = [(2, CHR ''S''), (3, CHR ''M'')]\<rparr>)
   \<and> (0::int) \<le> 2
   \<and> 2 < get_tx_length \<lparr>cigar_str = ''2S3M'', cigar = [(2, CHR ''S''), (3, CHR ''M'')]\<rparr>
   \<and> (\<exists>g w. map_coordinate \<lparr>cigar_str = ''2S3M'', cigar = [(2, CHR ''S''), (3, CHR ''M'')]\<rparr> 2 0
               = Some (Inr (g, w)))"
proof -
  let ?c = "\<lparr>cigar_str = ''2S3M'', cigar = [(2, CHR ''S''), (3, CHR ''M'')]\<rparr>"
  have nonneg: "\<forall>r\<in>set (cigar ?c). 0 \<le> fst r" by simp
  have lo: "(0::int) \<le> 2" by simp
  have hi: "2 < get_tx_length ?c" by (simp add: get_tx_length_def)
  from map_coordinate_terminates [OF nonneg lo hi, of 0]
  have "\<exists>g w. map_coordinate ?c 2 0 = Some (Inr (g, w))" by blast
  moreover have "list_all (\<lambda>r. 0 \<le> fst r) (cigar ?c)" by simp
  ultimately show ?thesis using lo hi by blast
qed

end
